theory Spec2Isabelle
  imports Complex_Main "HOL-Library.Stream"
begin

section \<open>Lane-change controllers: data model\<close>

text \<open>
  The controllers of \<^verbatim>\<open>lane_change_controllers.py\<close> read an environment object
  \<^verbatim>\<open>env\<close>: the network geometry \<^verbatim>\<open>env.scenario\<close>, the dictionary
  \<^verbatim>\<open>env.vehicles\<close> and four query methods. The methods are declared outside the
  controller module, so they are fields of the environment here: any function may stand
  for them. Numbers are Python floats, modelled as reals. The two gaps are computed with
  the rounding of IEEE binary64 (round to nearest, ties to even; exponent overflow is left
  out, positions on a track being far from it); the mean and the difference of two scores
  are exact. Scores are extended by the one non-finite value the controller itself can
  create, the NaN that \<^verbatim>\<open>np.mean\<close> returns for an empty list.
\<close>

datatype py_error = KeyError | IndexError | ValueError | ZeroDivisionError

datatype pyfloat = Num real | NaN

record vehicle =
  lane :: int
  max_speed :: real
  speed :: real

record Scenario =
  lanes :: int
  length_sc :: real

record Env =
  scenario :: Scenario
  vehicles :: "string \<rightharpoonup> vehicle"
  get_leading_car :: "string \<Rightarrow> int \<Rightarrow> string option"
  get_trailing_car :: "string \<Rightarrow> int \<Rightarrow> string option"
  get_x_by_id :: "string \<Rightarrow> real"
  get_cars :: "string \<Rightarrow> real \<Rightarrow> real \<Rightarrow> int \<Rightarrow> string list"

text \<open>The global generator of the \<^verbatim>\<open>random\<close> module: the draws still to come.\<close>

type_synonym rng = "real stream"

definition random :: "rng \<Rightarrow> real \<times> rng" where
  "random g = (shd g, stl g)"

subsection \<open>Python primitives used by the controllers\<close>

text \<open>\<^verbatim>\<open>not x\<close> for an identifier that is a string or \<^verbatim>\<open>None\<close>.\<close>

fun py_not :: "string option \<Rightarrow> bool" where
  "py_not None = True"
| "py_not (Some s) = (s = [])"

text \<open>
  Rounding of a real to the nearest binary64 float. The unit in the last place of \<open>x\<close>
  is \<open>2\<close> to the power \<open>\<lfloor>log\<^sub>2 \<bar>x\<bar>\<rfloor> - 52\<close>, and \<open>2\<close> to the \<open>-1074\<close> for subnormal
  numbers; \<open>x\<close> is rounded to the nearest multiple of it, a tie to the even one.
\<close>

definition round_even :: "real \<Rightarrow> int" where
  "round_even y =
     (let f = \<lfloor>y\<rfloor>; r = y - of_int f
      in if r < 1/2 then f else if 1/2 < r then f + 1 else if even f then f else f + 1)"

definition ulp_exp :: "real \<Rightarrow> int" where
  "ulp_exp x = max (- 1074) (\<lfloor>log 2 \<bar>x\<bar>\<rfloor> - 52)"

definition fl :: "real \<Rightarrow> real" where
  "fl x = (if x = 0 then 0 else of_int (round_even (x / 2 powi ulp_exp x)) * 2 powi ulp_exp x)"

text \<open>C's \<^verbatim>\<open>fmod\<close>: the remainder of the quotient truncated towards zero; it is exact.\<close>

definition fmod :: "real \<Rightarrow> real \<Rightarrow> real" where
  "fmod a b = a - b * of_int (if 0 \<le> a / b then \<lfloor>a / b\<rfloor> else \<lceil>a / b\<rceil>)"

text \<open>
  \<^verbatim>\<open>a % b\<close> on floats: a zero divisor raises; otherwise the interpreter takes
  \<^verbatim>\<open>fmod(a, b)\<close> and, when it is not zero and its sign is not the sign of the divisor,
  adds the divisor to it, which is a float addition and rounds.
\<close>

definition py_mod :: "real \<Rightarrow> real \<Rightarrow> py_error + real" where
  "py_mod a b =
     (if b = 0 then Inl ZeroDivisionError
      else (let m = fmod a b
            in if m \<noteq> 0 \<and> ((b < 0) \<noteq> (m < 0)) then Inr (fl (m + b)) else Inr m))"

text \<open>Comparison and subtraction of floats: every comparison with NaN is false.\<close>

fun py_gt :: "pyfloat \<Rightarrow> pyfloat \<Rightarrow> bool" where
  "py_gt (Num a) (Num b) = (a > b)"
| "py_gt _ _ = False"

fun py_sub :: "pyfloat \<Rightarrow> pyfloat \<Rightarrow> pyfloat" where
  "py_sub (Num a) (Num b) = Num (a - b)"
| "py_sub _ _ = NaN"

text \<open>
  \<^verbatim>\<open>max(v)\<close> keeps the first item and replaces it by a later one only when that one
  compares greater; an empty list raises \<^verbatim>\<open>ValueError\<close>.
\<close>

fun py_max_from :: "pyfloat \<Rightarrow> pyfloat list \<Rightarrow> pyfloat" where
  "py_max_from cur [] = cur"
| "py_max_from cur (x # xs) = py_max_from (if py_gt x cur then x else cur) xs"

definition py_max :: "pyfloat list \<Rightarrow> py_error + pyfloat" where
  "py_max v = (case v of [] \<Rightarrow> Inl ValueError | x # xs \<Rightarrow> Inr (py_max_from x xs))"

text \<open>
  \<^verbatim>\<open>v.index(x)\<close>: the first position whose item is \<^verbatim>\<open>x\<close> itself or equal to it.
  The only argument the controllers pass is \<^verbatim>\<open>max(v)\<close>, an item of \<^verbatim>\<open>v\<close>; it is
  NaN only when \<^verbatim>\<open>v[0]\<close> is that very NaN, found at position 0 by identity, which
  is also what equality of \<^typ>\<open>pyfloat\<close> gives.
\<close>

fun py_index :: "pyfloat list \<Rightarrow> pyfloat \<Rightarrow> py_error + nat" where
  "py_index [] x = Inl ValueError"
| "py_index (y # ys) x =
     (if y = x then Inr 0
      else (case py_index ys x of Inl e \<Rightarrow> Inl e | Inr i \<Rightarrow> Inr (Suc i)))"

text \<open>\<^verbatim>\<open>v[i]\<close> for a Python int: a negative index counts from the end.\<close>

definition py_getitem :: "'a list \<Rightarrow> int \<Rightarrow> py_error + 'a" where
  "py_getitem v i =
     (if 0 \<le> i \<and> i < int (length v) then Inr (v ! nat i)
      else if - int (length v) \<le> i \<and> i < 0 then Inr (v ! nat (int (length v) + i))
      else Inl IndexError)"

text \<open>\<^verbatim>\<open>np.mean\<close> of a list of numbers; the mean of no number is NaN (with a warning).\<close>

definition np_mean :: "real list \<Rightarrow> pyfloat" where
  "np_mean xs = (if xs = [] then NaN else Num (sum_list xs / real (length xs)))"

text \<open>\<^verbatim>\<open>[env.vehicles[other_id]["speed"] for other_id in other_car_ids]\<close>\<close>

fun speeds :: "Env \<Rightarrow> string list \<Rightarrow> py_error + real list" where
  "speeds env [] = Inr []"
| "speeds env (other_id # ids) =
     (case vehicles env other_id of
        None \<Rightarrow> Inl KeyError
      | Some veh \<Rightarrow>
          (case speeds env ids of Inl e \<Rightarrow> Inl e | Inr ss \<Rightarrow> Inr (speed veh # ss)))"

text \<open>The two wrapped gaps, \<^verbatim>\<open>(leadPos - thisPos) % env.scenario.length\<close> and
  \<^verbatim>\<open>(thisPos - trailPos) % env.scenario.length\<close>; the subtraction of two floats
  rounds.\<close>

definition headway :: "Env \<Rightarrow> string \<Rightarrow> string \<Rightarrow> py_error + real" where
  "headway env this leadID =
     py_mod (fl (get_x_by_id env leadID - get_x_by_id env this)) (length_sc (scenario env))"

definition footway :: "Env \<Rightarrow> string \<Rightarrow> string \<Rightarrow> py_error + real" where
  "footway env this trailID =
     py_mod (fl (get_x_by_id env this - get_x_by_id env trailID)) (length_sc (scenario env))"

section \<open>The static controllers\<close>

record StaticLaneChanger =
  veh_id :: string

definition StaticLaneChanger_get_action :: "StaticLaneChanger \<Rightarrow> Env \<Rightarrow> py_error + int" where
  "StaticLaneChanger_get_action self env =
     (case vehicles env (StaticLaneChanger.veh_id self) of
        None \<Rightarrow> Inl KeyError
      | Some veh \<Rightarrow> Inr (lane veh))"

definition never_change_lanes_controller :: "string \<Rightarrow> Env \<Rightarrow> py_error + int" where
  "never_change_lanes_controller carID env =
     (case vehicles env carID of None \<Rightarrow> Inl KeyError | Some veh \<Rightarrow> Inr (lane veh))"

section \<open>The stochastic lane changer, class variant\<close>

record StochasticLaneChanger =
  veh_id :: string
  speedThreshold :: real
  prob :: real
  dxBack :: real
  dxForward :: real
  gapBack :: real
  gapForward :: real

text \<open>The body of the loop over the lanes: the value stored in \<^verbatim>\<open>v[lane]\<close>. After
  the test of \<^verbatim>\<open>leadID\<close> and \<^verbatim>\<open>trailID\<close> both are non-empty strings.\<close>

definition get_action_lane :: "StochasticLaneChanger \<Rightarrow> Env \<Rightarrow> int \<Rightarrow> py_error + pyfloat" where
  "get_action_lane self env l =
     (let leadID = get_leading_car env (veh_id self) l;
          trailID = get_trailing_car env (veh_id self) l
      in if py_not leadID \<or> py_not trailID then
           (case vehicles env (veh_id self) of
              None \<Rightarrow> Inl KeyError
            | Some veh \<Rightarrow> Inr (Num (max_speed veh)))
         else
           (case headway env (veh_id self) (the leadID) of
              Inl e \<Rightarrow> Inl e
            | Inr hw \<Rightarrow>
           (case footway env (veh_id self) (the trailID) of
              Inl e \<Rightarrow> Inl e
            | Inr fw \<Rightarrow>
                if hw < gapForward self \<or> fw < gapBack self then Inr (Num 0)
                else
                  (case speeds env (get_cars env (veh_id self) (dxBack self) (dxForward self) l) of
                     Inl e \<Rightarrow> Inl e
                   | Inr ss \<Rightarrow> Inr (np_mean ss)))))"

text \<open>The loop itself; \<^verbatim>\<open>range\<close> yields the lanes as natural numbers.\<close>

fun get_action_loop ::
  "StochasticLaneChanger \<Rightarrow> Env \<Rightarrow> nat list \<Rightarrow> pyfloat list \<Rightarrow> py_error + pyfloat list" where
  "get_action_loop self env [] v = Inr v"
| "get_action_loop self env (l # rest) v =
     (case get_action_lane self env (int l) of
        Inl e \<Rightarrow> Inl e
      | Inr s \<Rightarrow> get_action_loop self env rest (v[l := s]))"

text \<open>Lines 40 to 67: \<^verbatim>\<open>v = [0] * lanes\<close>, then the loop over \<^verbatim>\<open>range(lanes)\<close>.\<close>

definition get_action_scores :: "StochasticLaneChanger \<Rightarrow> Env \<Rightarrow> py_error + pyfloat list" where
  "get_action_scores self env =
     get_action_loop self env [0 ..< nat (lanes (scenario env))]
       (replicate (nat (lanes (scenario env))) (Num 0))"

definition StochasticLaneChanger_get_action ::
  "StochasticLaneChanger \<Rightarrow> Env \<Rightarrow> rng \<Rightarrow> (py_error + int) \<times> rng" where
  "StochasticLaneChanger_get_action self env g =
     (case get_action_scores self env of Inl e \<Rightarrow> (Inl e, g) | Inr v \<Rightarrow>
      (case py_max v of Inl e \<Rightarrow> (Inl e, g) | Inr maxv \<Rightarrow>
      (case py_index v maxv of Inl e \<Rightarrow> (Inl e, g) | Inr maxl \<Rightarrow>
      (case vehicles env (veh_id self) of None \<Rightarrow> (Inl KeyError, g) | Some veh \<Rightarrow>
      (case py_getitem v (lane veh) of Inl e \<Rightarrow> (Inl e, g) | Inr myv \<Rightarrow>
         if int maxl \<noteq> lane veh \<and> py_gt (py_sub maxv myv) (Num (speedThreshold self)) then
           (case random g of (r, g') \<Rightarrow>
              if r < prob self then (Inr (int maxl), g') else (Inr (lane veh), g'))
         else (Inr (lane veh), g))))))"

text \<open>\<^verbatim>\<open>__init__\<close>, and \<^verbatim>\<open>__init__\<close> with its default arguments
  (\<^verbatim>\<open>speedThreshold = 5, prob = 0.5, dxBack = 0, dxForward = 60, gapBack = 10,
  gapForward = 5\<close>, the defaults of the closure variant as well).\<close>

definition init ::
  "string \<Rightarrow> real \<Rightarrow> real \<Rightarrow> real \<Rightarrow> real \<Rightarrow> real \<Rightarrow> real \<Rightarrow> StochasticLaneChanger" where
  "init vid speedThreshold' prob' dxBack' dxForward' gapBack' gapForward' =
     \<lparr>veh_id = vid, speedThreshold = speedThreshold', prob = prob', dxBack = dxBack',
      dxForward = dxForward', gapBack = gapBack', gapForward = gapForward'\<rparr>"

definition init_default :: "string \<Rightarrow> StochasticLaneChanger" where
  "init_default vid = init vid 5 (1/2) 0 60 10 5"

section \<open>The stochastic lane changer, closure variant\<close>

text \<open>The loop body of \<^verbatim>\<open>controller\<close>; it reads four of the six captured parameters.\<close>

definition controller_lane ::
  "real \<Rightarrow> real \<Rightarrow> real \<Rightarrow> real \<Rightarrow> string \<Rightarrow> Env \<Rightarrow> int \<Rightarrow> py_error + pyfloat" where
  "controller_lane dxBack' dxForward' gapBack' gapForward' carID env l =
     (let leadID = get_leading_car env carID l;
          trailID = get_trailing_car env carID l
      in if py_not leadID \<or> py_not trailID then
           (case vehicles env carID of
              None \<Rightarrow> Inl KeyError
            | Some veh \<Rightarrow> Inr (Num (max_speed veh)))
         else
           (case headway env carID (the leadID) of
              Inl e \<Rightarrow> Inl e
            | Inr hw \<Rightarrow>
           (case footway env carID (the trailID) of
              Inl e \<Rightarrow> Inl e
            | Inr fw \<Rightarrow>
                if hw < gapForward' \<or> fw < gapBack' then Inr (Num 0)
                else
                  (case speeds env (get_cars env carID dxBack' dxForward' l) of
                     Inl e \<Rightarrow> Inl e
                   | Inr ss \<Rightarrow> Inr (np_mean ss)))))"

fun controller_loop ::
  "real \<Rightarrow> real \<Rightarrow> real \<Rightarrow> real \<Rightarrow> string \<Rightarrow> Env \<Rightarrow> nat list \<Rightarrow> pyfloat list
     \<Rightarrow> py_error + pyfloat list" where
  "controller_loop dxBack' dxForward' gapBack' gapForward' carID env [] v = Inr v"
| "controller_loop dxBack' dxForward' gapBack' gapForward' carID env (l # rest) v =
     (case controller_lane dxBack' dxForward' gapBack' gapForward' carID env (int l) of
        Inl e \<Rightarrow> Inl e
      | Inr s \<Rightarrow>
          controller_loop dxBack' dxForward' gapBack' gapForward' carID env rest (v[l := s]))"

definition controller_scores ::
  "real \<Rightarrow> real \<Rightarrow> real \<Rightarrow> real \<Rightarrow> string \<Rightarrow> Env \<Rightarrow> py_error + pyfloat list" where
  "controller_scores dxBack' dxForward' gapBack' gapForward' carID env =
     controller_loop dxBack' dxForward' gapBack' gapForward' carID env
       [0 ..< nat (lanes (scenario env))] (replicate (nat (lanes (scenario env))) (Num 0))"

text \<open>\<^verbatim>\<open>stochastic_lane_changer(...)\<close> returns the closure \<^verbatim>\<open>controller\<close>: the partial
  application to the six parameters is that closure.\<close>

definition stochastic_lane_changer ::
  "real \<Rightarrow> real \<Rightarrow> real \<Rightarrow> real \<Rightarrow> real \<Rightarrow> real \<Rightarrow> string \<Rightarrow> Env \<Rightarrow> rng
     \<Rightarrow> (py_error + int) \<times> rng" where
  "stochastic_lane_changer speedThreshold' prob' dxBack' dxForward' gapBack' gapForward'
       carID env g =
     (case controller_scores dxBack' dxForward' gapBack' gapForward' carID env of
        Inl e \<Rightarrow> (Inl e, g) | Inr v \<Rightarrow>
      (case py_max v of Inl e \<Rightarrow> (Inl e, g) | Inr maxv \<Rightarrow>
      (case py_index v maxv of Inl e \<Rightarrow> (Inl e, g) | Inr maxl \<Rightarrow>
      (case vehicles env carID of None \<Rightarrow> (Inl KeyError, g) | Some veh \<Rightarrow>
      (case py_getitem v (lane veh) of Inl e \<Rightarrow> (Inl e, g) | Inr myv \<Rightarrow>
         if int maxl \<noteq> lane veh \<and> py_gt (py_sub maxv myv) (Num speedThreshold') then
           (case random g of (r, g') \<Rightarrow>
              if r < prob' then (Inr (int maxl), g') else (Inr (lane veh), g'))
         else (Inr (lane veh), g))))))"

section \<open>Values named by the specification\<close>

text \<open>\<^verbatim>\<open>maxl\<close> after line 70 (\<open>best_lane\<close>), for a score vector and for the two variants.\<close>

definition argmax_first :: "pyfloat list \<Rightarrow> py_error + nat" where
  "argmax_first v = (case py_max v of Inl e \<Rightarrow> Inl e | Inr maxv \<Rightarrow> py_index v maxv)"

definition get_action_best_lane :: "StochasticLaneChanger \<Rightarrow> Env \<Rightarrow> py_error + nat" where
  "get_action_best_lane self env =
     (case get_action_scores self env of Inl e \<Rightarrow> Inl e | Inr v \<Rightarrow> argmax_first v)"

definition controller_best_lane ::
  "real \<Rightarrow> real \<Rightarrow> real \<Rightarrow> real \<Rightarrow> string \<Rightarrow> Env \<Rightarrow> py_error + nat" where
  "controller_best_lane dxBack' dxForward' gapBack' gapForward' carID env =
     (case controller_scores dxBack' dxForward' gapBack' gapForward' carID env of
        Inl e \<Rightarrow> Inl e | Inr v \<Rightarrow> argmax_first v)"

text \<open>
  The wrapped distance in the words of the specification, \<open>(b - a) mod L\<close>, with the
  modulo of the real numbers.
\<close>

definition mod_real :: "real \<Rightarrow> real \<Rightarrow> real" where
  "mod_real d L = d - L * of_int \<lfloor>d / L\<rfloor>"

definition wrapped_distance :: "real \<Rightarrow> real \<Rightarrow> real \<Rightarrow> real" where
  "wrapped_distance a b L = mod_real (b - a) L"

text \<open>The closure built from the parameters that an object holds.\<close>

abbreviation closure_params :: "StochasticLaneChanger \<Rightarrow> string \<Rightarrow> Env \<Rightarrow> rng \<Rightarrow> (py_error + int) \<times> rng" where
  "closure_params self \<equiv>
     stochastic_lane_changer (speedThreshold self) (prob self) (dxBack self) (dxForward self)
       (gapBack self) (gapForward self)"

text \<open>Example environments: a ring of length 200 with two lanes.\<close>

definition car :: "int \<Rightarrow> real \<Rightarrow> vehicle" where
  "car l s = \<lparr>lane = l, max_speed = 30, speed = s\<rparr>"

text \<open>\<open>A\<close> at 190 in lane 0 behind \<open>B\<close> at 10 in lane 0 (headway 20, footway 180);
  \<open>C\<close> at 90 in lane 1 is leader and follower of \<open>A\<close> there; the query window of
  \<open>A\<close> holds \<open>B\<close> in lane 0 and nobody in lane 1.\<close>

definition ring_env :: Env where
  "ring_env =
     \<lparr>scenario = \<lparr>lanes = 2, length_sc = 200\<rparr>,
      vehicles = [''A'' \<mapsto> car 0 8, ''B'' \<mapsto> car 0 6, ''C'' \<mapsto> car 1 20],
      get_leading_car = (\<lambda>vid l. if l = 0 then Some ''B'' else Some ''C''),
      get_trailing_car = (\<lambda>vid l. if l = 0 then Some ''B'' else Some ''C''),
      get_x_by_id = (\<lambda>vid. if vid = ''A'' then 190 else if vid = ''B'' then 10 else 90),
      get_cars = (\<lambda>vid back fwd l. if l = 0 then [''B''] else [])\<rparr>"

text \<open>\<open>A\<close> alone on the ring, in lane 1: no leader and no follower in any lane.\<close>

definition lonely_env :: Env where
  "lonely_env =
     \<lparr>scenario = \<lparr>lanes = 2, length_sc = 200\<rparr>,
      vehicles = [''A'' \<mapsto> car 1 8],
      get_leading_car = (\<lambda>vid l. None),
      get_trailing_car = (\<lambda>vid l. None),
      get_x_by_id = (\<lambda>vid. 50),
      get_cars = (\<lambda>vid back fwd l. [])\<rparr>"

text \<open>\<open>A\<close> at 100 in lane 0, 3 behind \<open>B\<close> (closer than \<open>gapForward\<close>); lane 1 is empty.\<close>

definition blocked_env :: Env where
  "blocked_env =
     \<lparr>scenario = \<lparr>lanes = 2, length_sc = 200\<rparr>,
      vehicles = [''A'' \<mapsto> car 0 8, ''B'' \<mapsto> car 0 6],
      get_leading_car = (\<lambda>vid l. if l = 0 then Some ''B'' else None),
      get_trailing_car = (\<lambda>vid l. if l = 0 then Some ''B'' else None),
      get_x_by_id = (\<lambda>vid. if vid = ''A'' then 100 else 103),
      get_cars = (\<lambda>vid back fwd l. if l = 0 then [''B''] else [])\<rparr>"

text \<open>\<open>A\<close> in lane 0 just past the start of the ring, at \<open>2\<close> to the \<open>-60\<close>, and \<open>B\<close>
  in lane 1 at 0: the leader of \<open>A\<close> in lane 1 is almost a lap ahead.\<close>

definition tiny_env :: Env where
  "tiny_env =
     \<lparr>scenario = \<lparr>lanes = 2, length_sc = 200\<rparr>,
      vehicles = [''A'' \<mapsto> car 0 8, ''B'' \<mapsto> car 1 6],
      get_leading_car = (\<lambda>vid l. if l = 1 then Some ''B'' else None),
      get_trailing_car = (\<lambda>vid l. if l = 1 then Some ''B'' else None),
      get_x_by_id = (\<lambda>vid. if vid = ''A'' then 1 / 2 ^ 60 else 0),
      get_cars = (\<lambda>vid back fwd l. if l = 1 then [''B''] else [])\<rparr>"

text \<open>Three lanes. \<open>A\<close> at 190 is alone in lane 1; \<open>C\<close> at 90 in lane 0 is leader and
  follower of \<open>A\<close> there, outside the window of \<open>A\<close>; lane 2 is empty.\<close>

definition nan_env :: Env where
  "nan_env =
     \<lparr>scenario = \<lparr>lanes = 3, length_sc = 200\<rparr>,
      vehicles = [''A'' \<mapsto> car 1 8, ''C'' \<mapsto> car 0 20],
      get_leading_car = (\<lambda>vid l. if l = 0 then Some ''C'' else None),
      get_trailing_car = (\<lambda>vid l. if l = 0 then Some ''C'' else None),
      get_x_by_id = (\<lambda>vid. if vid = ''A'' then 190 else 90),
      get_cars = (\<lambda>vid back fwd l. [])\<rparr>"

section \<open>Properties of the primitives and of the loop\<close>

subsection \<open>Rounding\<close>

lemma round_even_of_int: "round_even (of_int k) = k"
  by (simp add: round_even_def)

lemma round_even_nonneg: "0 \<le> y \<Longrightarrow> 0 \<le> round_even y"
  by (auto simp add: round_even_def Let_def)

lemma fl_nonneg: "0 \<le> x \<Longrightarrow> 0 \<le> fl x"
  by (simp add: fl_def round_even_nonneg)


lemma ulp_exp_eq:
  assumes "2 powi k \<le> \<bar>x\<bar>" "\<bar>x\<bar> < 2 powi (k + 1)"
  shows "ulp_exp x = max (- 1074) (k - 52)"
proof -
  have "0 < (2::real) powi k" by simp
  with assms(1) have pos: "0 < \<bar>x\<bar>" by linarith
  have "(2::real) powr real_of_int k \<le> \<bar>x\<bar>"
    using assms(1) by (simp add: powr_real_of_int')
  moreover have "\<bar>x\<bar> < (2::real) powr real_of_int (k + 1)"
  proof -
    have "(2::real) powr real_of_int (k + 1) = 2 powi (k + 1)"
      by (rule powr_real_of_int') simp_all
    with assms(2) show ?thesis by (simp only:)
  qed
  ultimately have "\<lfloor>log 2 \<bar>x\<bar>\<rfloor> = k"
    using pos floor_log_eq_powr_iff [of "\<bar>x\<bar>" 2 k] by simp
  then show ?thesis by (simp add: ulp_exp_def)
qed

lemma ulp_exp_small:
  assumes "1 \<le> \<bar>x\<bar>" "\<bar>x\<bar> < 2 ^ 53"
  shows "ulp_exp x \<le> 0"
proof -
  have "log 2 \<bar>x\<bar> < 53"
    using assms by (simp add: log_less_iff powr_realpow [symmetric])
  then have "\<lfloor>log 2 \<bar>x\<bar>\<rfloor> < 53" by linarith
  then show ?thesis by (simp add: ulp_exp_def)
qed

lemma fl_exact:
  assumes "x \<noteq> 0" "x / 2 powi ulp_exp x = of_int m"
  shows "fl x = x"
proof -
  have "fl x = of_int m * 2 powi ulp_exp x"
    using assms by (simp add: fl_def round_even_of_int)
  also have "\<dots> = x" using assms(2) [symmetric] by simp
  finally show ?thesis .
qed

lemma fl_of_int:
  assumes "\<bar>n\<bar> < 2 ^ 53"
  shows "fl (of_int n) = of_int n"
proof (cases "n = 0")
  case True
  then show ?thesis by (simp add: fl_def)
next
  case False
  let ?x = "of_int n :: real"
  have ax: "\<bar>?x\<bar> = of_int \<bar>n\<bar>" by simp
  have "1 \<le> \<bar>n\<bar>" using False by simp
  then have "(1::real) \<le> of_int \<bar>n\<bar>" by (simp only: of_int_1_le_iff)
  then have lo: "1 \<le> \<bar>?x\<bar>" by (simp only: ax)
  have "(of_int \<bar>n\<bar> :: real) < of_int (2 ^ 53)" using assms by (simp only: of_int_less_iff)
  then have hi: "\<bar>?x\<bar> < 2 ^ 53" by (simp only: ax) simp
  from lo hi have e: "ulp_exp ?x \<le> 0" by (rule ulp_exp_small)
  have "2 powi ulp_exp ?x = 1 / (2::real) ^ nat (- ulp_exp ?x)"
    using e by (simp add: power_int_def field_simps)
  then have "?x / 2 powi ulp_exp ?x = of_int (n * 2 ^ nat (- ulp_exp ?x))" by simp
  moreover have "?x \<noteq> 0" using False by simp
  ultimately show ?thesis by (rule fl_exact [rotated])
qed

lemma fl_numeral [simp]:
  "(numeral k :: int) < 9007199254740992 \<Longrightarrow> fl (numeral k) = numeral k"
  "(numeral k :: int) < 9007199254740992 \<Longrightarrow> fl (- numeral k) = - numeral k"
  using fl_of_int [of "numeral k"] fl_of_int [of "- numeral k"] by simp_all

lemma fl_zero [simp]: "fl 0 = 0"
  by (simp add: fl_def)

lemma fl_eval:
  assumes "2 powi k \<le> \<bar>x\<bar>" "\<bar>x\<bar> < 2 powi (k + 1)"
    and "round_even (x / 2 powi (max (- 1074) (k - 52))) = m"
  shows "fl x = of_int m * 2 powi (max (- 1074) (k - 52))"
proof -
  have "0 < (2::real) powi k" by simp
  with assms(1) have "0 < \<bar>x\<bar>" by linarith
  then have "x \<noteq> 0" by simp
  then show ?thesis
    using assms(3) by (simp add: fl_def ulp_exp_eq [OF assms(1,2)])
qed

lemma round_even_up: "of_int m - 1/2 < y \<Longrightarrow> y \<le> of_int m \<Longrightarrow> round_even y = m"
proof -
  assume a: "of_int m - 1/2 < y" "y \<le> of_int m"
  show ?thesis
  proof (cases "y = of_int m")
    case True
    then show ?thesis by (simp add: round_even_of_int)
  next
    case False
    with a have "\<lfloor>y\<rfloor> = m - 1" by (intro floor_unique) auto
    with a show ?thesis by (simp add: round_even_def Let_def)
  qed
qed

lemma fl_tiny: "fl (- (1 / 2 ^ 60)) = - (1 / 2 ^ 60)"
proof -
  have "fl (- (1 / 2 ^ 60)) = of_int (- (2 ^ 52)) * 2 powi (max (- 1074) (- 60 - 52))"
  proof (rule fl_eval)
    show "2 powi (- 60) \<le> \<bar>- (1 / 2 ^ 60) :: real\<bar>" by (simp add: power_int_minus_divide)
    show "\<bar>- (1 / 2 ^ 60) :: real\<bar> < 2 powi (- 60 + 1)" by (simp add: power_int_minus_divide)
    have "(- (1 / 2 ^ 60) :: real) / 2 powi (max (- 1074) (- 60 - 52)) = of_int (- (2 ^ 52))"
      by (simp add: power_int_minus_divide)
    then show "round_even (- (1 / 2 ^ 60) / 2 powi (max (- 1074) (- 60 - 52))) = - (2 ^ 52)"
      by (simp only: round_even_of_int)
  qed
  then show ?thesis by (simp add: power_int_minus_divide)
qed

lemma fl_below_200: "fl (200 - 1 / 2 ^ 60) = 200"
proof -
  have "fl (200 - 1 / 2 ^ 60) = of_int (200 * 2 ^ 45) * 2 powi (max (- 1074) (7 - 52))"
  proof (rule fl_eval)
    show "2 powi 7 \<le> \<bar>200 - 1 / 2 ^ 60 :: real\<bar>" by simp
    show "\<bar>200 - 1 / 2 ^ 60 :: real\<bar> < 2 powi (7 + 1)" by simp
    show "round_even ((200 - 1 / 2 ^ 60) / 2 powi (max (- 1074) (7 - 52))) = 200 * 2 ^ 45"
      by (rule round_even_up) (simp_all add: power_int_minus_divide)
  qed
  then show ?thesis by (simp add: power_int_minus_divide)
qed

subsection \<open>Wrapped distance\<close>

lemmas gap_eval = headway_def footway_def py_mod_def fmod_def Let_def ceiling_def

lemma py_mod_total: "b \<noteq> 0 \<Longrightarrow> \<exists>h. py_mod a b = Inr h"
  by (simp add: py_mod_def Let_def)

lemma fmod_nonneg: "0 < b \<Longrightarrow> 0 \<le> a \<Longrightarrow> fmod a b = mod_real a b \<and> 0 \<le> fmod a b"
proof -
  assume b: "0 < b" and a: "0 \<le> a"
  then have q: "0 \<le> a / b" by simp
  have "of_int \<lfloor>a / b\<rfloor> \<le> a / b" by (rule of_int_floor_le)
  with b have "of_int \<lfloor>a / b\<rfloor> * b \<le> a" by (simp only: pos_le_divide_eq)
  then have "0 \<le> a - b * of_int \<lfloor>a / b\<rfloor>" by (simp add: mult.commute)
  with q show ?thesis by (simp add: fmod_def mod_real_def)
qed

lemma fmod_neg:
  assumes "0 < b" "a < 0"
  shows "fmod a b \<le> 0 \<and> 0 \<le> fmod a b + b
       \<and> (fmod a b = 0 \<longrightarrow> mod_real a b = 0)
       \<and> (fmod a b \<noteq> 0 \<longrightarrow> fmod a b + b = mod_real a b)"
proof -
  let ?q = "a / b"
  from assms have q: "?q < 0" by (simp add: divide_neg_pos)
  then have fm: "fmod a b = a - b * of_int \<lceil>?q\<rceil>" by (simp add: fmod_def)
  have c1: "?q \<le> of_int \<lceil>?q\<rceil>" by (rule le_of_int_ceiling)
  have c2: "of_int \<lceil>?q\<rceil> < ?q + 1" by linarith
  from c1 assms(1) have "a \<le> of_int \<lceil>?q\<rceil> * b" by (simp only: pos_divide_le_eq)
  then have le0: "fmod a b \<le> 0" by (simp add: fm mult.commute)
  from c2 assms(1) have "of_int \<lceil>?q\<rceil> * b < (?q + 1) * b" by (simp only: mult_less_cancel_right_pos)
  also have "\<dots> = a + b" using assms(1) by (simp add: algebra_simps)
  finally have gt: "0 < fmod a b + b" by (simp add: fm mult.commute)
  show ?thesis
  proof (cases "fmod a b = 0")
    case True
    then have "a = b * of_int \<lceil>?q\<rceil>" by (simp add: fm)
    then have "?q = of_int \<lceil>?q\<rceil>" using assms(1) by (simp add: field_simps)
    then have "\<lfloor>?q\<rfloor> = \<lceil>?q\<rceil>" by (metis floor_of_int)
    with True le0 gt show ?thesis by (simp add: fm mod_real_def)
  next
    case False
    then have "?q \<noteq> of_int \<lceil>?q\<rceil>" using assms(1) by (auto simp add: fm field_simps)
    then have "?q \<noteq> of_int \<lfloor>?q\<rfloor>" by (metis ceiling_of_int)
    then have "\<lceil>?q\<rceil> = \<lfloor>?q\<rfloor> + 1" by (simp add: ceiling_altdef)
    then have "fmod a b + b = mod_real a b" by (simp add: fm mod_real_def algebra_simps)
    with False le0 gt show ?thesis by simp
  qed
qed

lemma py_mod_float:
  assumes "0 < b"
  shows "\<exists>h. py_mod a b = Inr h \<and> 0 \<le> h
           \<and> (0 \<le> a \<longrightarrow> h = mod_real a b) \<and> (a < 0 \<longrightarrow> h = fl (mod_real a b))"
proof (cases "0 \<le> a")
  case True
  from fmod_nonneg [OF assms True] assms True show ?thesis
    by (simp add: py_mod_def Let_def)
next
  case False
  then have a: "a < 0" by simp
  note f = fmod_neg [OF assms a]
  show ?thesis
  proof (cases "fmod a b = 0")
    case True
    with f assms a show ?thesis by (simp add: py_mod_def Let_def)
  next
    case False
    with f have neg: "fmod a b < 0" and eq: "fmod a b + b = mod_real a b" by auto
    from f eq have "0 \<le> fl (mod_real a b)" by (simp add: fl_nonneg)
    with False neg eq assms a show ?thesis by (simp add: py_mod_def Let_def)
  qed
qed

subsection \<open>max and index\<close>

lemma py_gt_irrefl: "\<not> py_gt x x"
  by (cases x) simp_all

lemma py_gt_trans: "py_gt x y \<Longrightarrow> py_gt y z \<Longrightarrow> py_gt x z"
  by (cases x; cases y; cases z) simp_all

lemma py_max_from_mono: "\<not> py_gt y cur \<Longrightarrow> \<not> py_gt y (py_max_from cur xs)"
proof (induction xs arbitrary: cur)
  case Nil
  then show ?case by simp
next
  case (Cons x xs)
  have "\<not> py_gt y (if py_gt x cur then x else cur)"
    using Cons.prems py_gt_trans by auto
  then show ?case using Cons.IH by simp
qed

lemma py_max_from_upper: "y \<in> set xs \<Longrightarrow> \<not> py_gt y (py_max_from cur xs)"
proof (induction xs arbitrary: cur)
  case Nil
  then show ?case by simp
next
  case (Cons x xs)
  show ?case
  proof (cases "y = x")
    case True
    have "\<not> py_gt x (if py_gt x cur then x else cur)"
      by (simp add: py_gt_irrefl)
    then show ?thesis using True py_max_from_mono by simp
  next
    case False
    then show ?thesis using Cons by simp
  qed
qed

lemma py_max_from_mem: "py_max_from cur xs \<in> set (cur # xs)"
  by (induction xs arbitrary: cur) (auto split: if_splits)

lemma py_index_found:
  "x \<in> set v \<Longrightarrow> \<exists>i. py_index v x = Inr i"
  by (induction v) auto

lemma py_index_first:
  "py_index v x = Inr i \<Longrightarrow> i < length v \<and> v ! i = x \<and> (\<forall>j<i. v ! j \<noteq> x)"
proof (induction v arbitrary: i)
  case Nil
  then show ?case by simp
next
  case (Cons y ys)
  show ?case
  proof (cases "y = x")
    case True
    with Cons.prems show ?thesis by simp
  next
    case False
    with Cons.prems obtain k where k: "py_index ys x = Inr k" "i = Suc k"
      by (auto split: sum.splits)
    from Cons.IH [OF k(1)] have ih: "k < length ys" "ys ! k = x" "\<forall>j<k. ys ! j \<noteq> x"
      by simp_all
    have "\<forall>j<Suc k. (y # ys) ! j \<noteq> x"
    proof (intro allI impI)
      fix j assume "j < Suc k"
      then show "(y # ys) ! j \<noteq> x"
        using False ih(3) by (cases j) simp_all
    qed
    with ih k show ?thesis by simp
  qed
qed

lemma argmax_first_props:
  assumes "v \<noteq> []"
  shows "\<exists>m i. py_max v = Inr m \<and> py_index v m = Inr i \<and> i < length v \<and> v ! i = m
           \<and> (\<forall>j<length v. \<not> py_gt (v ! j) m) \<and> (\<forall>j<i. v ! j \<noteq> m)"
proof -
  from assms obtain x xs where v: "v = x # xs" by (cases v) auto
  define m where "m = py_max_from x xs"
  have pm: "py_max v = Inr m" by (simp add: v py_max_def m_def)
  have mem: "m \<in> set v" unfolding m_def v by (rule py_max_from_mem)
  then obtain i where i: "py_index v m = Inr i" using py_index_found by blast
  have up: "\<forall>j<length v. \<not> py_gt (v ! j) m"
  proof (intro allI impI)
    fix j assume j: "j < length v"
    show "\<not> py_gt (v ! j) m"
    proof (cases j)
      case 0
      then show ?thesis unfolding m_def v using py_max_from_mono [OF py_gt_irrefl] by simp
    next
      case (Suc k)
      with j have "xs ! k \<in> set xs" by (simp add: v)
      then show ?thesis unfolding m_def v using Suc py_max_from_upper by simp
    qed
  qed
  from py_index_first [OF i] pm i up show ?thesis by blast
qed


subsection \<open>The loop over the lanes\<close>

lemma get_action_loop_length:
  "get_action_loop self env ls v = Inr v' \<Longrightarrow> length v' = length v"
  by (induction ls arbitrary: v) (auto split: sum.splits)

lemma get_action_loop_keeps:
  "get_action_loop self env ls v = Inr v' \<Longrightarrow> l \<notin> set ls \<Longrightarrow> v' ! l = v ! l"
  by (induction ls arbitrary: v) (auto split: sum.splits)

lemma get_action_loop_entry:
  "get_action_loop self env ls v = Inr v' \<Longrightarrow> l \<in> set ls \<Longrightarrow> l < length v
     \<Longrightarrow> get_action_lane self env (int l) = Inr (v' ! l)"
proof (induction ls arbitrary: v)
  case Nil
  then show ?case by simp
next
  case (Cons k ks)
  from Cons.prems(1) obtain s where s: "get_action_lane self env (int k) = Inr s"
    and rest: "get_action_loop self env ks (v[k := s]) = Inr v'"
    by (auto split: sum.splits)
  show ?case
  proof (cases "l \<in> set ks")
    case True
    from Cons.IH [OF rest True] Cons.prems(3) show ?thesis by simp
  next
    case False
    with Cons.prems(2) have lk: "l = k" by simp
    have "v' ! l = (v[k := s]) ! l"
      using get_action_loop_keeps [OF rest False] .
    with lk s Cons.prems(3) show ?thesis by simp
  qed
qed

lemma get_action_loop_total:
  "(\<forall>l\<in>set ls. \<exists>s. get_action_lane self env (int l) = Inr s)
     \<Longrightarrow> \<exists>v'. get_action_loop self env ls v = Inr v'"
  by (induction ls arbitrary: v) auto

lemma get_action_scores_length:
  "get_action_scores self env = Inr v \<Longrightarrow> length v = nat (lanes (scenario env))"
  unfolding get_action_scores_def by (drule get_action_loop_length) simp

lemma get_action_scores_entry:
  assumes "get_action_scores self env = Inr v" "l < nat (lanes (scenario env))"
  shows "get_action_lane self env (int l) = Inr (v ! l)"
proof -
  have "l \<in> set [0 ..< nat (lanes (scenario env))]" using assms(2) by simp
  moreover have "l < length (replicate (nat (lanes (scenario env))) (Num 0 :: pyfloat))"
    using assms(2) by simp
  ultimately show ?thesis
    using assms(1) get_action_loop_entry unfolding get_action_scores_def by blast
qed

lemma get_action_scores_total:
  assumes "\<forall>l < nat (lanes (scenario env)). \<exists>s. get_action_lane self env (int l) = Inr s"
  shows "\<exists>v. get_action_scores self env = Inr v"
  unfolding get_action_scores_def
  by (rule get_action_loop_total) (use assms in auto)

subsection \<open>The closure computes what the method computes\<close>

lemma controller_lane_eq:
  "controller_lane (dxBack self) (dxForward self) (gapBack self) (gapForward self) (veh_id self) env l
     = get_action_lane self env l"
  by (simp add: controller_lane_def get_action_lane_def)

lemma controller_loop_eq:
  "controller_loop (dxBack self) (dxForward self) (gapBack self) (gapForward self) (veh_id self) env ls v
     = get_action_loop self env ls v"
  by (induction ls arbitrary: v) (simp_all add: controller_lane_eq split: sum.splits)

lemma controller_scores_eq:
  "controller_scores (dxBack self) (dxForward self) (gapBack self) (gapForward self) (veh_id self) env
     = get_action_scores self env"
  by (simp add: controller_scores_def get_action_scores_def controller_loop_eq)

lemma controller_eq:
  "closure_params self (veh_id self) env g = StochasticLaneChanger_get_action self env g"
  by (simp add: stochastic_lane_changer_def StochasticLaneChanger_get_action_def
      controller_scores_eq)

subsection \<open>The three branches of the loop body\<close>

lemma empty_lane_score:
  assumes "py_not (get_leading_car env (veh_id self) l) \<or> py_not (get_trailing_car env (veh_id self) l)"
    and "vehicles env (veh_id self) = Some veh"
  shows "get_action_lane self env l = Inr (Num (max_speed veh))"
  using assms by (auto simp add: get_action_lane_def Let_def)


lemma empty_window_score:
  assumes "get_leading_car env (veh_id self) l = Some leadID" "leadID \<noteq> []"
    and "get_trailing_car env (veh_id self) l = Some trailID" "trailID \<noteq> []"
    and "headway env (veh_id self) leadID = Inr hw"
    and "footway env (veh_id self) trailID = Inr fw"
    and "\<not> hw < gapForward self" "\<not> fw < gapBack self"
    and "get_cars env (veh_id self) (dxBack self) (dxForward self) l = []"
  shows "get_action_lane self env l = Inr NaN"
  using assms by (auto simp add: get_action_lane_def Let_def np_mean_def)

subsection \<open>Vectors of equal scores\<close>

lemma py_max_replicate: "py_max_from x (replicate k x) = x"
  by (induction k) (simp_all add: py_gt_irrefl)

lemma scores_all_equal:
  assumes "get_action_scores self env = Inr v"
    and "\<forall>l < nat (lanes (scenario env)). get_action_lane self env (int l) = Inr s"
  shows "v = replicate (nat (lanes (scenario env))) s"
proof (rule nth_equalityI)
  show "length v = length (replicate (nat (lanes (scenario env))) s)"
    using get_action_scores_length [OF assms(1)] by simp
next
  fix i assume "i < length v"
  then have i: "i < nat (lanes (scenario env))"
    using get_action_scores_length [OF assms(1)] by simp
  from get_action_scores_entry [OF assms(1) i] assms(2) i have "v ! i = s" by simp
  with i show "v ! i = replicate (nat (lanes (scenario env))) s ! i" by simp
qed


lemma py_index_replicate: "0 < k \<Longrightarrow> py_index (replicate k x) x = Inr 0"
  by (cases k) simp_all

lemma py_max_all_equal: "0 < k \<Longrightarrow> py_max (replicate k x) = Inr x"
  by (cases k) (simp_all add: py_max_def py_max_replicate)

lemma controller_best_lane_eq:
  "controller_best_lane (dxBack self) (dxForward self) (gapBack self) (gapForward self)
     (veh_id self) env = get_action_best_lane self env"
  by (simp add: controller_best_lane_def get_action_best_lane_def controller_scores_eq)

text \<open>What \<^verbatim>\<open>max\<close> and \<^verbatim>\<open>index\<close> give on any non-empty vector: no score compares
  greater than the chosen one, no earlier score equals it, and all scores are at most the
  chosen one when none is NaN.\<close>

lemma first_argmax_of_numbers:
  assumes "v \<noteq> []"
  shows "\<exists>best_score best_lane.
           py_max v = Inr best_score \<and> py_index v best_score = Inr best_lane
         \<and> argmax_first v = Inr best_lane
         \<and> best_lane < length v \<and> v ! best_lane = best_score
         \<and> (\<forall>l < length v. \<not> py_gt (v ! l) best_score)
         \<and> (\<forall>l < best_lane. v ! l \<noteq> best_score)
         \<and> (NaN \<notin> set v \<longrightarrow>
               (\<exists>b. best_score = Num b \<and> (\<forall>l < length v. \<exists>a. v ! l = Num a \<and> a \<le> b)))
         \<and> (get_action_scores self env = Inr v \<longrightarrow> get_action_best_lane self env = Inr best_lane)
         \<and> (controller_scores dxBack' dxForward' gapBack' gapForward' carID env = Inr v
               \<longrightarrow> controller_best_lane dxBack' dxForward' gapBack' gapForward' carID env
                     = Inr best_lane)"
proof -
  from argmax_first_props [OF assms] obtain m i where mi:
    "py_max v = Inr m" "py_index v m = Inr i" "i < length v" "v ! i = m"
    "\<forall>j<length v. \<not> py_gt (v ! j) m" "\<forall>j<i. v ! j \<noteq> m"
    by blast
  have numeric: "\<exists>b. m = Num b \<and> (\<forall>l < length v. \<exists>a. v ! l = Num a \<and> a \<le> b)"
    if nonan: "NaN \<notin> set v"
  proof -
    have "m \<in> set v" using mi(3,4) nth_mem by blast
    with nonan obtain b where b: "m = Num b" by (cases m) auto
    have "\<exists>a. v ! l = Num a \<and> a \<le> b" if l: "l < length v" for l
    proof -
      from l nonan have "v ! l \<noteq> NaN" using nth_mem by metis
      then obtain a where a: "v ! l = Num a" by (cases "v ! l") auto
      from mi(5) l have "\<not> py_gt (v ! l) m" by blast
      with a b show ?thesis by simp
    qed
    with b show ?thesis by blast
  qed
  have "argmax_first v = Inr i" using mi(1,2) by (simp add: argmax_first_def)
  with mi numeric show ?thesis
    by (auto simp add: get_action_best_lane_def controller_best_lane_def)
qed

subsection \<open>When the method returns\<close>

text \<open>
  In an environment that knows the vehicle, in a lane of the network, on a track whose
  length is not zero, and whose window query names known vehicles only, the method raises
  nothing and returns a lane of the network.
\<close>

lemma speeds_total:
  "set ids \<subseteq> dom (vehicles env) \<Longrightarrow> \<exists>ss. speeds env ids = Inr ss \<and> length ss = length ids"
  by (induction ids) auto

lemma get_action_lane_total:
  assumes "vehicles env (veh_id self) = Some veh"
    and "length_sc (scenario env) \<noteq> 0"
    and "set (get_cars env (veh_id self) (dxBack self) (dxForward self) l) \<subseteq> dom (vehicles env)"
  shows "\<exists>s. get_action_lane self env l = Inr s"
proof -
  obtain ss where "speeds env (get_cars env (veh_id self) (dxBack self) (dxForward self) l) = Inr ss"
    using speeds_total [OF assms(3)] by blast
  moreover obtain hw where
    "headway env (veh_id self) (the (get_leading_car env (veh_id self) l)) = Inr hw"
    using py_mod_total [OF assms(2)] unfolding headway_def by blast
  moreover obtain fw where
    "footway env (veh_id self) (the (get_trailing_car env (veh_id self) l)) = Inr fw"
    using py_mod_total [OF assms(2)] unfolding footway_def by blast
  ultimately show ?thesis
    using assms(1) by (simp add: get_action_lane_def Let_def)
qed

lemma get_action_returns:
  assumes veh: "vehicles env (veh_id self) = Some veh"
    and lane: "0 \<le> lane veh" "lane veh < lanes (scenario env)"
    and len: "length_sc (scenario env) \<noteq> 0"
    and cars: "\<forall>l < nat (lanes (scenario env)).
        set (get_cars env (veh_id self) (dxBack self) (dxForward self) (int l)) \<subseteq> dom (vehicles env)"
  shows "\<exists>d. fst (StochasticLaneChanger_get_action self env g) = Inr d
           \<and> 0 \<le> d \<and> d < lanes (scenario env)"
proof -
  have "\<forall>l < nat (lanes (scenario env)). \<exists>s. get_action_lane self env (int l) = Inr s"
    using get_action_lane_total [OF veh len] cars by blast
  then obtain v where v: "get_action_scores self env = Inr v"
    using get_action_scores_total by blast
  have lv: "length v = nat (lanes (scenario env))" by (rule get_action_scores_length [OF v])
  with lane have "v \<noteq> []" by auto
  from argmax_first_props [OF this] obtain m i where mi:
    "py_max v = Inr m" "py_index v m = Inr i" "i < length v" by blast
  have mine: "py_getitem v (lane veh) = Inr (v ! nat (lane veh))"
    using lane lv by (simp add: py_getitem_def)
  have "int i < lanes (scenario env)" using mi(3) lv by simp
  then show ?thesis
    using v mi veh mine lane
    by (simp add: StochasticLaneChanger_get_action_def random_def)
qed

section \<open>The claims\<close>

subsection \<open>The decision\<close>



subsection \<open>Scores of single lanes\<close>



text \<open>
  \<^bold>\<open>C3.\<close> In a lane where the leader query or the follower query reports no vehicle
  (\<^verbatim>\<open>None\<close> or the empty string), the score stored for the lane is the \<open>max_speed\<close>
  of the vehicle, in both variants.
\<close>

theorem empty_lane_scores_max_speed:
  assumes "py_not (get_leading_car env (veh_id self) (int l))
             \<or> py_not (get_trailing_car env (veh_id self) (int l))"
    and "vehicles env (veh_id self) = Some veh"
  shows "get_action_lane self env (int l) = Inr (Num (max_speed veh))
       \<and> controller_lane (dxBack self) (dxForward self) (gapBack self) (gapForward self)
           (veh_id self) env (int l) = Inr (Num (max_speed veh))
       \<and> (\<forall>v. l < nat (lanes (scenario env)) \<and> get_action_scores self env = Inr v
              \<longrightarrow> v ! l = Num (max_speed veh))
       \<and> (\<forall>v. l < nat (lanes (scenario env))
              \<and> controller_scores (dxBack self) (dxForward self) (gapBack self) (gapForward self)
                  (veh_id self) env = Inr v
              \<longrightarrow> v ! l = Num (max_speed veh))"
proof -
  have s: "get_action_lane self env (int l) = Inr (Num (max_speed veh))"
    using assms by (rule empty_lane_score)
  have "v ! l = Num (max_speed veh)"
    if "l < nat (lanes (scenario env))" "get_action_scores self env = Inr v" for v
    using get_action_scores_entry [OF that(2) that(1)] s by simp
  with s show ?thesis by (simp add: controller_lane_eq controller_scores_eq)
qed

theorem empty_lane_scores_max_speed_witness:
  "(py_not (get_leading_car blocked_env ''A'' 1) \<or> py_not (get_trailing_car blocked_env ''A'' 1))
     \<and> vehicles blocked_env ''A'' = Some (car 0 8)
     \<and> get_action_lane (init_default ''A'') blocked_env 1 = Inr (Num 30)
     \<and> controller_lane 0 60 10 5 ''A'' blocked_env 1 = Inr (Num 30)
     \<and> get_action_scores (init_default ''A'') blocked_env = Inr [Num 0, Num 30]
     \<and> [Num 0, Num 30] ! 1 = Num 30"
  using empty_lane_scores_max_speed [of blocked_env "init_default ''A''" 1 "car 0 8"]
  by (simp add: blocked_env_def car_def init_default_def init_def get_action_scores_def
      get_action_lane_def gap_eval numeral_2_eq_2)

subsection \<open>Wrapped distances\<close>

text \<open>
  \<^bold>\<open>C4\<close>, as the specification states it, has the headway equal to the wrapped distance
  \<open>(leader_position - vehicle_position) mod track_length\<close>. On the ring of length 200,
  with the vehicle at \<open>2\<close> to the \<open>-60\<close> and the leader at 0, the wrapped distance is
  \<open>200 - 2\<close> to the \<open>-60\<close>, and the headway that the controllers compute is 200: the
  sum of the remainder and the track length is rounded to the nearest float.
\<close>

theorem wrapped_gaps_counterexample:
  "get_x_by_id tiny_env ''A'' = 1 / 2 ^ 60 \<and> get_x_by_id tiny_env ''B'' = 0
     \<and> length_sc (scenario tiny_env) = 200
     \<and> wrapped_distance (get_x_by_id tiny_env ''A'') (get_x_by_id tiny_env ''B'')
          (length_sc (scenario tiny_env)) = 200 - 1 / 2 ^ 60
     \<and> headway tiny_env ''A'' ''B'' = Inr 200
     \<and> headway tiny_env ''A'' ''B''
          \<noteq> Inr (wrapped_distance (get_x_by_id tiny_env ''A'') (get_x_by_id tiny_env ''B'')
                 (length_sc (scenario tiny_env)))"
proof -
  have w: "wrapped_distance (1 / 2 ^ 60) 0 200 = 200 - 1 / 2 ^ 60"
  proof -
    have "\<lfloor>- (1 / 2 ^ 60) / 200 :: real\<rfloor> = - 1" by (rule floor_unique) simp_all
    then show ?thesis by (simp add: wrapped_distance_def mod_real_def)
  qed
  have c: "\<lceil>- (1 / 2 ^ 60) / 200 :: real\<rceil> = 0" by (rule ceiling_unique) simp_all
  have "fmod (- (1 / 2 ^ 60)) 200 = - (1 / 2 ^ 60)"
    unfolding fmod_def c by simp
  then have "py_mod (- (1 / 2 ^ 60)) 200 = Inr (fl (200 - 1 / 2 ^ 60))"
    by (simp add: py_mod_def Let_def)
  then have "py_mod (fl (0 - 1 / 2 ^ 60)) 200 = Inr 200"
    using fl_tiny fl_below_200 by simp
  then have h: "headway tiny_env ''A'' ''B'' = Inr 200"
    by (simp add: headway_def tiny_env_def)
  have "(200::real) \<noteq> 200 - 1 / 2 ^ 60" by simp
  with h w show ?thesis by (simp add: tiny_env_def)
qed

text \<open>
  \<^bold>\<open>C4\<close>, amended. On a track of positive length \<open>L\<close> the headway is the wrapped
  distance evaluated in floating point. With \<open>d\<close> the rounded difference
  \<open>leader_position - vehicle_position\<close>, it is \<open>d mod L\<close> when \<open>d\<close> is not negative and
  the float nearest to \<open>d mod L\<close> when \<open>d\<close> is negative (so it can be \<open>L\<close> itself). It is
  never negative. With \<open>L = 200\<close>, the vehicle at 190 and the leader at 10 it is 20. The
  footway is the same for the difference \<open>vehicle_position - follower_position\<close>. The
  differences are taken within the range of the floats.
\<close>

theorem wrapped_gaps:
  assumes "0 < length_sc (scenario env)"
    and "\<bar>get_x_by_id env leadID - get_x_by_id env this\<bar> < 2 ^ 1023"
    and "\<bar>get_x_by_id env this - get_x_by_id env trailID\<bar> < 2 ^ 1023"
  shows "\<exists>hw fw. headway env this leadID = Inr hw \<and> footway env this trailID = Inr fw
           \<and> 0 \<le> hw \<and> 0 \<le> fw
           \<and> (0 \<le> fl (get_x_by_id env leadID - get_x_by_id env this) \<longrightarrow>
                hw = mod_real (fl (get_x_by_id env leadID - get_x_by_id env this))
                       (length_sc (scenario env)))
           \<and> (fl (get_x_by_id env leadID - get_x_by_id env this) < 0 \<longrightarrow>
                hw = fl (mod_real (fl (get_x_by_id env leadID - get_x_by_id env this))
                           (length_sc (scenario env))))
           \<and> (0 \<le> fl (get_x_by_id env this - get_x_by_id env trailID) \<longrightarrow>
                fw = mod_real (fl (get_x_by_id env this - get_x_by_id env trailID))
                       (length_sc (scenario env)))
           \<and> (fl (get_x_by_id env this - get_x_by_id env trailID) < 0 \<longrightarrow>
                fw = fl (mod_real (fl (get_x_by_id env this - get_x_by_id env trailID))
                           (length_sc (scenario env))))
           \<and> (length_sc (scenario env) = 200 \<and> get_x_by_id env this = 190
                \<and> get_x_by_id env leadID = 10 \<longrightarrow> hw = 20)"
proof -
  let ?L = "length_sc (scenario env)"
  let ?dh = "fl (get_x_by_id env leadID - get_x_by_id env this)"
  let ?df = "fl (get_x_by_id env this - get_x_by_id env trailID)"
  obtain hw where hw: "py_mod ?dh ?L = Inr hw" "0 \<le> hw"
    "0 \<le> ?dh \<longrightarrow> hw = mod_real ?dh ?L" "?dh < 0 \<longrightarrow> hw = fl (mod_real ?dh ?L)"
    using py_mod_float [OF assms(1)] by blast
  obtain fw where fw: "py_mod ?df ?L = Inr fw" "0 \<le> fw"
    "0 \<le> ?df \<longrightarrow> fw = mod_real ?df ?L" "?df < 0 \<longrightarrow> fw = fl (mod_real ?df ?L)"
    using py_mod_float [OF assms(1)] by blast
  have "hw = 20" if "?L = 200" "get_x_by_id env this = 190" "get_x_by_id env leadID = 10"
  proof -
    have "\<lfloor>- 180 / 200 :: real\<rfloor> = - 1" by (rule floor_unique) simp_all
    then have "mod_real (- 180) 200 = 20" by (simp add: mod_real_def)
    with hw(4) that show ?thesis by simp
  qed
  with hw fw show ?thesis by (simp add: headway_def footway_def)
qed

theorem wrapped_gaps_witness:
  "0 < length_sc (scenario ring_env)
     \<and> \<bar>get_x_by_id ring_env ''B'' - get_x_by_id ring_env ''A''\<bar> < 2 ^ 1023
     \<and> \<bar>get_x_by_id ring_env ''A'' - get_x_by_id ring_env ''B''\<bar> < 2 ^ 1023
     \<and> headway ring_env ''A'' ''B'' = Inr 20 \<and> footway ring_env ''A'' ''B'' = Inr 180
     \<and> get_x_by_id ring_env ''A'' = 190 \<and> get_x_by_id ring_env ''B'' = 10"
  using wrapped_gaps [where env = ring_env and this = "''A''" and leadID = "''B''"
      and trailID = "''B''"]
  by (simp add: ring_env_def gap_eval)

subsection \<open>The best lane\<close>

text \<open>
  \<^bold>\<open>C5.\<close> The best lane should be the argmax of the scores, the lowest one among tied
  lanes. With three lanes, \<open>A\<close> alone in lane 1, lane 2 empty and the window of \<open>A\<close> empty
  in lane 0, the scores are NaN, 30 and 30: lanes 1 and 2 tie for the maximum, and both
  variants take lane 0 for the best lane, because no score compares greater than the NaN
  that \<^verbatim>\<open>max\<close> meets first.
\<close>

theorem nan_score_taken_for_best_lane:
  "get_action_scores (init_default ''A'') nan_env = Inr [NaN, Num 30, Num 30]
     \<and> controller_scores 0 60 10 5 ''A'' nan_env = Inr [NaN, Num 30, Num 30]
     \<and> py_max [NaN, Num 30, Num 30] = Inr NaN
     \<and> get_action_best_lane (init_default ''A'') nan_env = Inr 0
     \<and> controller_best_lane 0 60 10 5 ''A'' nan_env = Inr 0
     \<and> fst (StochasticLaneChanger_get_action (init_default ''A'') nan_env (sconst (3/10))) = Inr 1
     \<and> fst (stochastic_lane_changer 5 (1/2) 0 60 10 5 ''A'' nan_env (sconst (3/10))) = Inr 1"
proof -
  have three: "[0 ..< 3] = [0, 1, 2]" "replicate 3 (Num 0) = [Num 0, Num 0, Num 0]"
    by (simp_all add: numeral_3_eq_3 upt_rec)
  have s1: "get_action_scores (init_default ''A'') nan_env = Inr [NaN, Num 30, Num 30]"
    by (simp add: get_action_scores_def nan_env_def three get_action_lane_def init_default_def
        init_def car_def gap_eval np_mean_def)
  have s2: "controller_scores 0 60 10 5 ''A'' nan_env = Inr [NaN, Num 30, Num 30]"
    by (simp add: controller_scores_def nan_env_def three controller_lane_def car_def gap_eval
        np_mean_def)
  have v: "vehicles nan_env ''A'' = Some (car 1 8)" by (simp add: nan_env_def)
  have p: "veh_id (init_default ''A'') = ''A''" "speedThreshold (init_default ''A'') = 5"
    "prob (init_default ''A'') = 1/2"
    by (simp_all add: init_default_def init_def)
  show ?thesis
    by (simp add: s1 s2 v p get_action_best_lane_def controller_best_lane_def argmax_first_def
        py_max_def StochasticLaneChanger_get_action_def stochastic_lane_changer_def
        py_getitem_def car_def)
qed

text \<open>
  \<^bold>\<open>C6\<close>, as the specification states it, has the tie-break choose the lane \<open>c\<close> of
  the vehicle when no lane has a leader or a follower, and the decision be \<open>c\<close> for
  every configuration. On the ring with two lanes and the vehicle alone in lane 1 the
  best lane is lane 0; with a speed threshold of \<open>-1\<close> and a draw of 0.3 the decision is
  lane 0 as well.
\<close>

theorem all_lanes_empty_counterexample:
  "py_not (get_leading_car lonely_env ''A'' 0) \<and> py_not (get_leading_car lonely_env ''A'' 1)
     \<and> lanes (scenario lonely_env) = 2
     \<and> vehicles lonely_env ''A'' = Some (car 1 8) \<and> lane (car 1 8) = 1
     \<and> get_action_best_lane (init_default ''A'') lonely_env = Inr 0
     \<and> controller_best_lane 0 60 10 5 ''A'' lonely_env = Inr 0
     \<and> StochasticLaneChanger_get_action (init ''A'' (-1) (1/2) 0 60 10 5) lonely_env
          (3/10 ## sconst 0) = (Inr 0, sconst 0)
     \<and> stochastic_lane_changer (-1) (1/2) 0 60 10 5 ''A'' lonely_env
          (3/10 ## sconst 0) = (Inr 0, sconst 0)"
  by (simp add: lonely_env_def car_def init_default_def init_def get_action_best_lane_def
      controller_best_lane_def get_action_scores_def controller_scores_def
      get_action_lane_def controller_lane_def numeral_2_eq_2 argmax_first_def py_max_def
      StochasticLaneChanger_get_action_def stochastic_lane_changer_def py_getitem_def random_def)

text \<open>
  \<^bold>\<open>C6\<close>, amended. When no lane has both a leader and a follower, every lane scores
  the \<open>max_speed\<close> of the vehicle, the tie-break yields lane 0, the lowest index, and,
  when \<open>speedThreshold\<close> is not negative, the decision is the lane \<open>c\<close> of the vehicle
  for every state of the generator, which is left untouched.
\<close>

theorem all_lanes_empty:
  assumes "vehicles env (veh_id self) = Some veh"
    and "0 \<le> lane veh" and "lane veh < lanes (scenario env)"
    and "\<forall>l < nat (lanes (scenario env)).
           py_not (get_leading_car env (veh_id self) (int l))
             \<or> py_not (get_trailing_car env (veh_id self) (int l))"
  shows "get_action_scores self env
           = Inr (replicate (nat (lanes (scenario env))) (Num (max_speed veh)))
       \<and> controller_scores (dxBack self) (dxForward self) (gapBack self) (gapForward self)
           (veh_id self) env
           = Inr (replicate (nat (lanes (scenario env))) (Num (max_speed veh)))
       \<and> get_action_best_lane self env = Inr 0
       \<and> controller_best_lane (dxBack self) (dxForward self) (gapBack self) (gapForward self)
           (veh_id self) env = Inr 0
       \<and> (0 \<le> speedThreshold self \<longrightarrow>
             StochasticLaneChanger_get_action self env g = (Inr (lane veh), g)
           \<and> closure_params self (veh_id self) env g = (Inr (lane veh), g))"
proof -
  let ?n = "nat (lanes (scenario env))"
  let ?s = "Num (max_speed veh)"
  have n: "0 < ?n" using assms(2,3) by simp
  have each: "\<forall>l < ?n. get_action_lane self env (int l) = Inr ?s"
    using assms(1,4) empty_lane_score by blast
  then obtain v where v: "get_action_scores self env = Inr v"
    using get_action_scores_total by blast
  have sc: "get_action_scores self env = Inr (replicate ?n ?s)"
    using scores_all_equal [OF v each] v by simp
  have best: "get_action_best_lane self env = Inr 0"
    using n by (simp add: get_action_best_lane_def sc argmax_first_def py_max_all_equal
        py_index_replicate)
  have mine: "py_getitem (replicate ?n ?s) (lane veh) = Inr ?s"
    using assms(2,3) by (simp add: py_getitem_def)
  have "StochasticLaneChanger_get_action self env g = (Inr (lane veh), g)"
    if "0 \<le> speedThreshold self"
    using that n assms(1)
    by (simp add: StochasticLaneChanger_get_action_def sc py_max_all_equal py_index_replicate mine)
  with sc best show ?thesis
    by (simp add: controller_eq controller_scores_eq controller_best_lane_eq)
qed

theorem all_lanes_empty_witness:
  "vehicles lonely_env ''A'' = Some (car 1 8) \<and> 0 \<le> lane (car 1 8)
     \<and> lane (car 1 8) < lanes (scenario lonely_env)
     \<and> py_not (get_leading_car lonely_env ''A'' 0) \<and> py_not (get_leading_car lonely_env ''A'' 1)
     \<and> 0 \<le> speedThreshold (init_default ''A'')
     \<and> get_action_scores (init_default ''A'') lonely_env = Inr [Num 30, Num 30]
     \<and> get_action_best_lane (init_default ''A'') lonely_env = Inr 0
     \<and> StochasticLaneChanger_get_action (init_default ''A'') lonely_env (sconst (3/10))
          = (Inr 1, sconst (3/10))
     \<and> stochastic_lane_changer 5 (1/2) 0 60 10 5 ''A'' lonely_env (sconst (3/10))
          = (Inr 1, sconst (3/10))"
  using all_lanes_empty [where env = lonely_env and self = "init_default ''A''"
      and veh = "car 1 8" and g = "sconst (3/10)"]
  by (simp add: lonely_env_def car_def init_default_def init_def numeral_2_eq_2)

text \<open>
  \<^bold>\<open>C7.\<close> An empty observation window in a lane that has a leader and a follower and
  passes the gap check: on the ring, lane 1 is such a lane for vehicle \<open>A\<close>, and its score
  is the NaN of \<^verbatim>\<open>np.mean([])\<close>, not a number.
\<close>

theorem empty_window_scores_nan:
  "get_leading_car ring_env ''A'' 1 = Some ''C'' \<and> get_trailing_car ring_env ''A'' 1 = Some ''C''
     \<and> headway ring_env ''A'' ''C'' = Inr 100 \<and> footway ring_env ''A'' ''C'' = Inr 100
     \<and> get_cars ring_env ''A'' 0 60 1 = []
     \<and> get_action_lane (init_default ''A'') ring_env 1 = Inr NaN
     \<and> controller_lane 0 60 10 5 ''A'' ring_env 1 = Inr NaN
     \<and> get_action_scores (init_default ''A'') ring_env = Inr [Num 6, NaN]
     \<and> controller_scores 0 60 10 5 ''A'' ring_env = Inr [Num 6, NaN]"
  by (simp add: ring_env_def car_def init_default_def init_def get_action_scores_def
      controller_scores_def get_action_lane_def controller_lane_def gap_eval np_mean_def numeral_2_eq_2)

subsection \<open>The two variants, and repeated calls\<close>

text \<open>
  \<^bold>\<open>C8.\<close> For all six parameters, every vehicle id, every environment and every state
  of the random generator, the closure returned by \<^verbatim>\<open>stochastic_lane_changer\<close> and
  \<^verbatim>\<open>StochasticLaneChanger.get_action\<close> of an object built from the same parameters
  return the same decision (or raise the same error) and leave the generator in the
  same state.
\<close>

theorem class_and_closure_agree:
  "stochastic_lane_changer speedThreshold' prob' dxBack' dxForward' gapBack' gapForward' vid env g
     = StochasticLaneChanger_get_action
         (init vid speedThreshold' prob' dxBack' dxForward' gapBack' gapForward') env g"
  using controller_eq [of "init vid speedThreshold' prob' dxBack' dxForward' gapBack' gapForward'" env g]
  by (simp add: init_def)

theorem class_and_closure_agree_witness:
  "stochastic_lane_changer 5 (1/2) 0 60 10 5 ''A'' blocked_env (sconst (3/10))
     = StochasticLaneChanger_get_action (init ''A'' 5 (1/2) 0 60 10 5) blocked_env (sconst (3/10))"
  using class_and_closure_agree [where env = blocked_env]
  by simp

text \<open>
  \<^bold>\<open>C9.\<close> The decision depends on the state of the random generator through its next
  draw only: two calls with the same environment and the same parameters, made in any two
  generator states whose next draw is the same, return the same decision.
\<close>

theorem decision_depends_on_draw_only:
  assumes "shd g1 = shd g2"
  shows "fst (StochasticLaneChanger_get_action self env g1)
           = fst (StochasticLaneChanger_get_action self env g2)
       \<and> fst (stochastic_lane_changer speedThreshold' prob' dxBack' dxForward' gapBack' gapForward'
                vid env g1)
           = fst (stochastic_lane_changer speedThreshold' prob' dxBack' dxForward' gapBack'
                gapForward' vid env g2)"
  using assms
  by (simp add: StochasticLaneChanger_get_action_def stochastic_lane_changer_def random_def
      split: sum.splits option.splits)

theorem decision_depends_on_draw_only_witness:
  "shd (3/10 ## sconst 0) = shd (sconst (3/10))
     \<and> fst (StochasticLaneChanger_get_action (init_default ''A'') blocked_env (3/10 ## sconst 0))
         = fst (StochasticLaneChanger_get_action (init_default ''A'') blocked_env (sconst (3/10)))
     \<and> fst (stochastic_lane_changer 5 (1/2) 0 60 10 5 ''A'' blocked_env (3/10 ## sconst 0))
         = fst (stochastic_lane_changer 5 (1/2) 0 60 10 5 ''A'' blocked_env (sconst (3/10)))"
  using decision_depends_on_draw_only [where ?g1.0 = "3/10 ## sconst 0" and ?g2.0 = "sconst (3/10)"]
  by simp

subsection \<open>The static controllers\<close>

text \<open>
  \<^bold>\<open>C10.\<close> When the environment knows the vehicle, \<^verbatim>\<open>StaticLaneChanger.get_action\<close>
  and the closure of \<^verbatim>\<open>never_change_lanes_controller\<close> both return the lane stored
  for the vehicle: neither asks for a lane change, and they agree.
\<close>

theorem static_controllers_keep_lane:
  assumes "vehicles env (StaticLaneChanger.veh_id self) = Some veh"
  shows "StaticLaneChanger_get_action self env = Inr (lane veh)
       \<and> never_change_lanes_controller (StaticLaneChanger.veh_id self) env = Inr (lane veh)"
  using assms by (simp add: StaticLaneChanger_get_action_def never_change_lanes_controller_def)

theorem static_controllers_keep_lane_witness:
  "vehicles lonely_env ''A'' = Some (car 1 8)
     \<and> StaticLaneChanger_get_action \<lparr>StaticLaneChanger.veh_id = ''A''\<rparr> lonely_env = Inr 1
     \<and> never_change_lanes_controller ''A'' lonely_env = Inr 1"
  using static_controllers_keep_lane [of lonely_env "\<lparr>StaticLaneChanger.veh_id = ''A''\<rparr>" "car 1 8"]
  by (simp add: lonely_env_def car_def)

end
